theory Spec2Isabelle
  imports Complex_Main
begin

section \<open>Data model of \<^verbatim>\<open>main.py\<close>\<close>

text \<open>
  Exceptions are values. The handlers of \<^verbatim>\<open>send_newsletters\<close> look at two things only:
  the class of the exception (\<^verbatim>\<open>except SMTPServerDisconnected\<close> against
  \<^verbatim>\<open>except Exception as e\<close>) and its text \<^verbatim>\<open>str(e)\<close>.
\<close>

datatype exn_class = SMTPServerDisconnected | SMTPAuthenticationError | KeyError | OtherException

datatype exn = Exn (cls: exn_class) (str: string)

text \<open>
  The configuration is the dictionary loaded from \<^verbatim>\<open>config.yml\<close>, with the fields the
  code reads: \<^verbatim>\<open>smtp.{host,port,username,password}\<close>, \<^verbatim>\<open>email.{subject,from}\<close> and
  \<^verbatim>\<open>rate_limit.{emails_per_batch,batch_delay,delay_between_emails}\<close>. Python's unbounded
  integers are \<^typ>\<open>int\<close>; clock readings and the delay between emails are floats in the
  program and are taken as \<^typ>\<open>real\<close> here, so that the subtraction and the comparison of
  \<^verbatim>\<open>_rate_limit\<close> are exact. The configuration is taken as loaded: every field is
  present with the type listed, so the lookups of the code raise nothing.
\<close>

record config =
  smtp_host :: string
  smtp_port :: int
  smtp_username :: string
  smtp_password :: string
  email_subject :: string
  email_from :: string
  emails_per_batch :: int
  batch_delay :: int
  delay_between_emails :: real

text \<open>A recipient is one row of \<^verbatim>\<open>csv.DictReader\<close>: a dictionary from column names to text.\<close>

type_synonym recipient = "string \<rightharpoonup> string"

text \<open>The message built at lines 135 to 143: three headers and one HTML part.\<close>

record message =
  msg_subject :: string
  msg_from :: string
  msg_to :: string
  msg_html :: string

text \<open>
  The effects of a run, in the order the program performs them: \<^verbatim>\<open>time.sleep\<close>, the call
  of \<^verbatim>\<open>_rate_limit\<close>, a read of the template file, \<^verbatim>\<open>smtplib.SMTP_SSL(host, port)\<close>,
  \<^verbatim>\<open>server.login(username, password)\<close>, \<^verbatim>\<open>server.send_message(msg)\<close>, and every
  assignment to \<^verbatim>\<open>self.sent_count\<close>.
\<close>

datatype event =
    Sleep real
  | RateLimitCheck
  | ReadTemplate
  | Connect string int
  | Login string string
  | Send message
  | SetSentCount int

text \<open>
  The state of a run: the two counters of the \<^verbatim>\<open>NewsletterSender\<close> object, the rows written
  to the results file so far, the effects performed so far, and \<open>tick\<close>, the number of
  iterations of the attempt loop started so far (it selects the environment's answers).
\<close>

record state =
  sent_count :: int
  last_send_time :: real
  rows :: "string list list"
  trace :: "event list"
  tick :: nat

text \<open>What opening a session (\<^verbatim>\<open>SMTP_SSL\<close> followed by \<^verbatim>\<open>login\<close>) can answer.\<close>

datatype session_result = Connected | ConnectFailed exn | LoginFailed exn

text \<open>
  What the outside world answers during one iteration of the attempt loop: the clock read
  by \<^verbatim>\<open>_rate_limit\<close> (line 66), the read of the template file (lines 141 and 142), the
  call of \<^verbatim>\<open>send_message\<close> (line 147; \<open>None\<close> is delivery), the clock read after a
  delivery (line 154), and the reconnection (lines 163 and 164).
\<close>

record tick_env =
  now_rl :: real
  template_read :: "exn + string"
  send_result :: "exn option"
  now_sent :: real
  reconnect :: session_result

text \<open>
  What the outside world answers during a whole run: the pre-flight session (line 98), the
  first read of the template (line 100), the read of the recipients (line 101), the creation
  of the results directory (line 107) and of the results file (line 114), the session of the
  main loop (lines 120 and 121), and the answers of each iteration of the attempt loop.
\<close>

record env =
  preflight :: session_result
  template0 :: "exn + string"
  recipients_read :: "exn + recipient list"
  results_dir :: "exn option"
  results_open :: "exn option"
  connect0 :: session_result
  ticks :: "nat \<Rightarrow> tick_env"

text \<open>How one iteration of the attempt loop ends: \<^verbatim>\<open>break\<close>, the next iteration, or an
  exception that leaves the loop.\<close>

datatype step = Break | Continue | Raise exn

text \<open>What a run leaves behind: the exception it ended with, if any, the results file (\<open>None\<close>
  when it was never created) and the final state.\<close>

record run =
  raised :: "exn option"
  results_file :: "string list list option"
  final :: state

section \<open>Operations\<close>

definition init_state :: state where
  "init_state = \<lparr>sent_count = 0, last_send_time = 0, rows = [], trace = [], tick = 0\<rparr>"

definition emit :: "event list \<Rightarrow> state \<Rightarrow> state" where
  "emit es s = s\<lparr>trace := trace s @ es\<rparr>"

definition retries :: nat where
  "retries = 3"

definition header :: "string list" where
  "header = [''email'', ''status'', ''error_message'']"

text \<open>\<^verbatim>\<open>range(batch_delay, 0, -1)\<close>: the values \<open>batch_delay\<close> down to 1, none when
  \<open>batch_delay\<close> is below 1.\<close>

definition countdown :: "int \<Rightarrow> int list" where
  "countdown n = rev [1..n]"

text \<open>\<^verbatim>\<open>_rate_limit\<close> (lines 53 to 72). The clock is read in the second branch only.\<close>

definition rate_limit :: "config \<Rightarrow> real \<Rightarrow> state \<Rightarrow> state" where
  "rate_limit cfg current_time s =
     (if emails_per_batch cfg \<le> sent_count s then
        (emit (map (\<lambda>remaining. Sleep 1) (countdown (batch_delay cfg)) @ [SetSentCount 0])
           (emit [RateLimitCheck] s))\<lparr>sent_count := 0\<rparr>
      else
        (let time_since_last = current_time - last_send_time s in
         if time_since_last < delay_between_emails cfg then
           emit [RateLimitCheck, Sleep (delay_between_emails cfg - time_since_last)] s
         else emit [RateLimitCheck] s))"

text \<open>\<^verbatim>\<open>smtplib.SMTP_SSL(host, port)\<close> followed by \<^verbatim>\<open>login(username, password)\<close>.\<close>

definition open_session :: "config \<Rightarrow> session_result \<Rightarrow> state \<Rightarrow> exn option \<times> state" where
  "open_session cfg r s =
     (case r of
        ConnectFailed ex \<Rightarrow> (Some ex, emit [Connect (smtp_host cfg) (smtp_port cfg)] s)
      | LoginFailed ex \<Rightarrow>
          (Some ex, emit [Connect (smtp_host cfg) (smtp_port cfg),
                          Login (smtp_username cfg) (smtp_password cfg)] s)
      | Connected \<Rightarrow>
          (None, emit [Connect (smtp_host cfg) (smtp_port cfg),
                       Login (smtp_username cfg) (smtp_password cfg)] s))"

definition build_message :: "config \<Rightarrow> string \<Rightarrow> string \<Rightarrow> message" where
  "build_message cfg addr html =
     \<lparr>msg_subject = email_subject cfg, msg_from = email_from cfg, msg_to = addr, msg_html = html\<rparr>"

text \<open>
  The two handlers of the inner \<^verbatim>\<open>try\<close> (lines 157 to 172). An exception raised inside the
  first handler, by the reconnection, is not caught by the second one: it leaves the loop.
\<close>

definition on_exception :: "tick_env \<Rightarrow> config \<Rightarrow> string \<Rightarrow> nat \<Rightarrow> exn \<Rightarrow> state \<Rightarrow> step \<times> state" where
  "on_exception e cfg addr attempt ex s =
     (if cls ex = SMTPServerDisconnected then
        (if attempt < retries - 1 then
           (case open_session cfg (reconnect e) (emit [Sleep 5] s) of
              (None, s') \<Rightarrow> (Continue, s')
            | (Some ex', s') \<Rightarrow> (Raise ex', s'))
         else (Raise ex, s))
      else (Break, s\<lparr>rows := rows s @ [[addr, ''failed'', str ex]]\<rparr>))"

text \<open>The body of the inner \<^verbatim>\<open>try\<close> after the rate limiter (lines 134 to 155), with its
  handlers.\<close>

definition send_attempt :: "tick_env \<Rightarrow> config \<Rightarrow> string \<Rightarrow> nat \<Rightarrow> state \<Rightarrow> step \<times> state" where
  "send_attempt e cfg addr attempt s =
     (case template_read e of
        Inl ex \<Rightarrow> on_exception e cfg addr attempt ex (emit [ReadTemplate] s)
      | Inr html \<Rightarrow>
          (let s1 = emit [ReadTemplate, Send (build_message cfg addr html)] s in
           case send_result e of
             Some ex \<Rightarrow> on_exception e cfg addr attempt ex s1
           | None \<Rightarrow>
               (Break, (emit [SetSentCount (sent_count s1 + 1)] s1)
                  \<lparr>sent_count := sent_count s1 + 1, last_send_time := now_sent e,
                   rows := rows s1 @ [[addr, ''success'', '''']]\<rparr>)))"

text \<open>One iteration of \<^verbatim>\<open>for attempt in range(retries)\<close> (lines 128 to 172).\<close>

definition attempt_step :: "env \<Rightarrow> config \<Rightarrow> string \<Rightarrow> nat \<Rightarrow> state \<Rightarrow> step \<times> state" where
  "attempt_step en cfg addr attempt s =
     (let e = ticks en (tick s) in
      send_attempt e cfg addr attempt (rate_limit cfg (now_rl e) (s\<lparr>tick := Suc (tick s)\<rparr>)))"

text \<open>The attempt loop over the values of \<^verbatim>\<open>range(retries)\<close>. A loop that runs out of values
  ends without an exception, as a Python \<^verbatim>\<open>for\<close> does.\<close>

fun retry_loop :: "env \<Rightarrow> config \<Rightarrow> string \<Rightarrow> nat list \<Rightarrow> state \<Rightarrow> exn option \<times> state" where
  "retry_loop en cfg addr [] s = (None, s)"
| "retry_loop en cfg addr (attempt # rest) s =
     (case attempt_step en cfg addr attempt s of
        (Break, s') \<Rightarrow> (None, s')
      | (Continue, s') \<Rightarrow> retry_loop en cfg addr rest s'
      | (Raise ex, s') \<Rightarrow> (Some ex, s'))"

text \<open>The loop over the recipients (lines 124 to 172). \<^verbatim>\<open>recipient['email']\<close> at line 125
  is outside the inner \<^verbatim>\<open>try\<close>: a row without that column ends the run with a
  \<^verbatim>\<open>KeyError\<close>.\<close>

fun send_loop :: "env \<Rightarrow> config \<Rightarrow> recipient list \<Rightarrow> state \<Rightarrow> exn option \<times> state" where
  "send_loop en cfg [] s = (None, s)"
| "send_loop en cfg (r # rs) s =
     (case r ''email'' of
        None \<Rightarrow> (Some (Exn KeyError (CHR 0x27 # ''email'' @ [CHR 0x27])), s)
      | Some addr \<Rightarrow>
          (case retry_loop en cfg addr [0..<retries] s of
             (Some ex, s') \<Rightarrow> (Some ex, s')
           | (None, s') \<Rightarrow> send_loop en cfg rs s'))"

text \<open>\<^verbatim>\<open>send_newsletters\<close> (lines 90 to 179). The template read at line 100 is bound to a
  variable that is not used again.\<close>

definition send_newsletters :: "env \<Rightarrow> config \<Rightarrow> state \<Rightarrow> run" where
  "send_newsletters en cfg s =
     (case open_session cfg (preflight en) s of
        (Some ex, s1) \<Rightarrow> \<lparr>raised = Some ex, results_file = None, final = s1\<rparr>
      | (None, s1) \<Rightarrow>
          (let s2 = emit [ReadTemplate] s1 in
           case template0 en of
             Inl ex \<Rightarrow> \<lparr>raised = Some ex, results_file = None, final = s2\<rparr>
           | Inr template \<Rightarrow>
               (case recipients_read en of
                  Inl ex \<Rightarrow> \<lparr>raised = Some ex, results_file = None, final = s2\<rparr>
                | Inr recipients \<Rightarrow>
                    (case results_dir en of
                       Some ex \<Rightarrow> \<lparr>raised = Some ex, results_file = None, final = s2\<rparr>
                     | None \<Rightarrow>
                         (case results_open en of
                            Some ex \<Rightarrow> \<lparr>raised = Some ex, results_file = None, final = s2\<rparr>
                          | None \<Rightarrow>
                              (case open_session cfg (connect0 en) (s2\<lparr>rows := [header]\<rparr>) of
                                 (Some ex, s3) \<Rightarrow>
                                   \<lparr>raised = Some ex, results_file = Some (rows s3), final = s3\<rparr>
                               | (None, s3) \<Rightarrow>
                                   (case send_loop en cfg recipients s3 of
                                      (r, s4) \<Rightarrow>
                                        \<lparr>raised = r, results_file = Some (rows s4),
                                         final = s4\<rparr>)))))))"

section \<open>Observations on a trace\<close>

text \<open>The total time slept.\<close>

fun slept :: "event list \<Rightarrow> real" where
  "slept [] = 0"
| "slept (Sleep d # es) = d + slept es"
| "slept (e # es) = slept es"

text \<open>The messages handed to \<^verbatim>\<open>send_message\<close>, in order, and the number of reads of the
  template file.\<close>

fun sent_messages :: "event list \<Rightarrow> message list" where
  "sent_messages [] = []"
| "sent_messages (Send m # es) = m # sent_messages es"
| "sent_messages (e # es) = sent_messages es"

fun template_reads :: "event list \<Rightarrow> nat" where
  "template_reads [] = 0"
| "template_reads (ReadTemplate # es) = Suc (template_reads es)"
| "template_reads (e # es) = template_reads es"

text \<open>The values assigned to \<^verbatim>\<open>self.sent_count\<close>, in order.\<close>

fun sent_count_values :: "event list \<Rightarrow> int list" where
  "sent_count_values [] = []"
| "sent_count_values (SetSentCount n # es) = n # sent_count_values es"
| "sent_count_values (e # es) = sent_count_values es"

text \<open>
  \<open>guarded b es\<close>: every \<open>Send\<close> of \<open>es\<close> comes after a \<open>RateLimitCheck\<close> of its own, with
  nothing in between but what the rate limiter itself does (its pauses and its reset of
  the counter) and the read of the template while the message is built. \<open>b\<close> tells
  whether such a check is pending when \<open>es\<close> starts.
\<close>

fun guarded :: "bool \<Rightarrow> event list \<Rightarrow> bool" where
  "guarded b [] = True"
| "guarded b (RateLimitCheck # es) = guarded True es"
| "guarded b (Send m # es) = (b \<and> guarded False es)"
| "guarded b (Sleep d # es) = guarded b es"
| "guarded b (SetSentCount n # es) = guarded b es"
| "guarded b (ReadTemplate # es) = guarded b es"
| "guarded b (Connect h p # es) = guarded False es"
| "guarded b (Login u p # es) = guarded False es"

text \<open>The counter is within the batch size, and so is every value it was given so far.\<close>

definition within_batch :: "config \<Rightarrow> state \<Rightarrow> bool" where
  "within_batch cfg s =
     (sent_count s \<le> emails_per_batch cfg
      \<and> list_all (\<lambda>n. n \<le> emails_per_batch cfg) (sent_count_values (trace s)))"

text \<open>\<open>row_of r row\<close>: \<open>row\<close> is an outcome row of the recipient \<open>r\<close>.\<close>

definition row_of :: "recipient \<Rightarrow> string list \<Rightarrow> bool" where
  "row_of r row =
     (case row of
        [addr, status, msg] \<Rightarrow>
          r ''email'' = Some addr \<and> (status = ''success'' \<and> msg = [] \<or> status = ''failed'')
      | _ \<Rightarrow> False)"

section \<open>Where a run stands\<close>

text \<open>Every step of \<^verbatim>\<open>send_newsletters\<close> before the loop over the recipients goes well: the
  pre-flight session, the first read of the template, the results directory, the results
  file and the session of the main loop.\<close>

definition setup_ok :: "env \<Rightarrow> bool" where
  "setup_ok en =
     (preflight en = Connected \<and> \<not> isl (template0 en) \<and> results_dir en = None
      \<and> results_open en = None \<and> connect0 en = Connected)"

text \<open>The state in which the loop over the recipients starts in such a run: the state that
  \<^verbatim>\<open>send_newsletters\<close> hands to the loop, written with the same operations.\<close>

definition loop_start :: "config \<Rightarrow> state \<Rightarrow> state" where
  "loop_start cfg s =
     snd (open_session cfg Connected
            ((emit [ReadTemplate] (snd (open_session cfg Connected s)))\<lparr>rows := [header]\<rparr>))"

text \<open>\<open>reaches en cfg s pre r post s0\<close>: the run that starts in \<open>s\<close> reads the recipients
  \<open>pre @ r # post\<close>, gets through the recipients \<open>pre\<close> without an exception, and is in
  state \<open>s0\<close> when the attempt loop of the recipient \<open>r\<close> starts.\<close>

definition reaches ::
  "env \<Rightarrow> config \<Rightarrow> state \<Rightarrow> recipient list \<Rightarrow> recipient \<Rightarrow> recipient list \<Rightarrow> state \<Rightarrow> bool" where
  "reaches en cfg s pre r post s0 =
     (setup_ok en \<and> recipients_read en = Inr (pre @ r # post)
      \<and> send_loop en cfg pre (loop_start cfg s) = (None, s0))"

section \<open>Example inputs\<close>

definition demo_config :: config where
  "demo_config =
     \<lparr>smtp_host = ''smtp.x.com'', smtp_port = 465, smtp_username = ''news'',
      smtp_password = ''secret'', email_subject = ''News'', email_from = ''news@x.com'',
      emails_per_batch = 2, batch_delay = 10, delay_between_emails = 1\<rparr>"

definition to_addr :: "string \<Rightarrow> recipient" where
  "to_addr addr = [''email'' \<mapsto> addr]"

text \<open>An iteration whose message is delivered, one whose message is refused, and one during
  which the connection is lost.\<close>

definition delivered :: tick_env where
  "delivered =
     \<lparr>now_rl = 100, template_read = Inr ''<p>Hello</p>'', send_result = None, now_sent = 100,
      reconnect = Connected\<rparr>"

definition refused :: tick_env where
  "refused = delivered\<lparr>send_result := Some (Exn OtherException ''mailbox unavailable'')\<rparr>"

definition dropped :: tick_env where
  "dropped = delivered\<lparr>send_result := Some (Exn SMTPServerDisconnected ''Server not connected'')\<rparr>"

text \<open>A run in which every step outside the attempt loop goes well.\<close>

definition demo_env :: "recipient list \<Rightarrow> (nat \<Rightarrow> tick_env) \<Rightarrow> env" where
  "demo_env rs f =
     \<lparr>preflight = Connected, template0 = Inr ''<p>Hello</p>'', recipients_read = Inr rs,
      results_dir = None, results_open = None, connect0 = Connected, ticks = f\<rparr>"

text \<open>An iteration in which \<^verbatim>\<open>send_message\<close> raises an exception whose text is empty, as
  \<^verbatim>\<open>str(MemoryError())\<close> is.\<close>

definition silent_failure :: tick_env where
  "silent_failure = delivered\<lparr>send_result := Some (Exn OtherException [])\<rparr>"

text \<open>The template file is edited between the first and the second iteration.\<close>

definition edited_template :: "nat \<Rightarrow> tick_env" where
  "edited_template k =
     (if k = 0 then delivered else delivered\<lparr>template_read := Inr ''<p>Bye</p>''\<rparr>)"

definition silent_env :: env where
  "silent_env = demo_env [to_addr ''a@x.com''] (\<lambda>k. silent_failure)"

definition edited_env :: env where
  "edited_env = demo_env [to_addr ''a@x.com'', to_addr ''b@x.com''] edited_template"

text \<open>The scenarios of the specification: three deliveries with a batch size of two; a
  refused address followed by a delivery; and a connection that is lost at every attempt.\<close>

definition three_delivered :: env where
  "three_delivered =
     demo_env [to_addr ''a@x.com'', to_addr ''b@x.com'', to_addr ''c@x.com''] (\<lambda>k. delivered)"

definition refused_then_delivered :: env where
  "refused_then_delivered =
     demo_env [to_addr ''bad@x.com'', to_addr ''a@x.com'']
       (\<lambda>k. if k = 0 then refused else delivered)"

definition always_dropped :: env where
  "always_dropped = demo_env [to_addr ''a@x.com'', to_addr ''b@x.com''] (\<lambda>k. dropped)"

text \<open>The server refuses the credentials during the pre-flight check.\<close>

definition bad_credentials :: env where
  "bad_credentials =
     (demo_env [to_addr ''a@x.com''] (\<lambda>k. delivered))
       \<lparr>preflight := LoginFailed (Exn SMTPAuthenticationError ''Authentication failed'')\<rparr>"

text \<open>Two deliveries; and a lost connection after which the server refuses the new
  connection.\<close>

definition two_delivered :: env where
  "two_delivered = demo_env [to_addr ''a@x.com'', to_addr ''b@x.com''] (\<lambda>k. delivered)"

definition reconnect_refused :: env where
  "reconnect_refused =
     demo_env [to_addr ''a@x.com'', to_addr ''b@x.com'']
       (\<lambda>k. dropped\<lparr>reconnect := ConnectFailed (Exn OtherException ''Connection refused'')\<rparr>)"

section \<open>Basic facts\<close>

lemma emit_simps [simp]:
  "trace (emit es s) = trace s @ es"
  "sent_count (emit es s) = sent_count s"
  "last_send_time (emit es s) = last_send_time s"
  "rows (emit es s) = rows s"
  "tick (emit es s) = tick s"
  by (simp_all add: emit_def)

lemma slept_append: "slept (xs @ ys) = slept xs + slept ys"
  by (induction xs rule: slept.induct) simp_all

lemma slept_replicate: "slept (replicate n (Sleep d)) = of_nat n * d"
  by (induction n) (simp_all add: algebra_simps)

lemma countdown_sleeps: "map (\<lambda>remaining. Sleep d) (countdown n) = replicate (nat n) (Sleep d)"
  by (simp add: countdown_def map_replicate_const)

lemma sent_messages_append [simp]: "sent_messages (xs @ ys) = sent_messages xs @ sent_messages ys"
  by (induction xs rule: sent_messages.induct) simp_all

lemma template_reads_append [simp]:
  "template_reads (xs @ ys) = template_reads xs + template_reads ys"
  by (induction xs rule: template_reads.induct) simp_all

lemma sent_count_values_append [simp]:
  "sent_count_values (xs @ ys) = sent_count_values xs @ sent_count_values ys"
  by (induction xs rule: sent_count_values.induct) simp_all

lemma observe_sleeps [simp]:
  "sent_messages (replicate n (Sleep d)) = []"
  "template_reads (replicate n (Sleep d)) = 0"
  "sent_count_values (replicate n (Sleep d)) = []"
  by (induction n) simp_all

lemma rate_limit_frame [simp]:
  "last_send_time (rate_limit cfg now s) = last_send_time s"
  "rows (rate_limit cfg now s) = rows s"
  "tick (rate_limit cfg now s) = tick s"
  by (simp_all add: rate_limit_def Let_def)

lemma rate_limit_observe [simp]:
  "sent_messages (trace (rate_limit cfg now s)) = sent_messages (trace s)"
  "template_reads (trace (rate_limit cfg now s)) = template_reads (trace s)"
  by (simp_all add: rate_limit_def Let_def countdown_sleeps)

lemma open_session_frame [simp]:
  "sent_count (snd (open_session cfg r s)) = sent_count s"
  "last_send_time (snd (open_session cfg r s)) = last_send_time s"
  "rows (snd (open_session cfg r s)) = rows s"
  "tick (snd (open_session cfg r s)) = tick s"
  by (simp_all add: open_session_def split: session_result.splits)

lemma on_exception_frame [simp]:
  "sent_count (snd (on_exception e cfg addr attempt ex s)) = sent_count s"
  "last_send_time (snd (on_exception e cfg addr attempt ex s)) = last_send_time s"
  "tick (snd (on_exception e cfg addr attempt ex s)) = tick s"
  by (simp_all add: on_exception_def open_session_def split: session_result.splits)

lemma attempts_range: "[0..<retries] = [0, 1, 2]"
  by (simp add: retries_def upt_rec)

section \<open>The rate limiter\<close>

text \<open>
  Claim C3. \<^verbatim>\<open>_rate_limit\<close>, from the counter, the time of the last delivery, the
  configuration and the clock: when the counter has reached \<open>emails_per_batch\<close> it sleeps
  once per value of the countdown, which is \<open>batch_delay\<close> seconds in all for a delay that
  is not negative, and then sets the counter to 0; otherwise, when less than
  \<open>delay_between_emails\<close> has passed since the last delivery, it sleeps once, for exactly
  the remaining time, and leaves the counter alone; otherwise it does not sleep.
\<close>

theorem rate_limit_behaviour:
  "(emails_per_batch cfg \<le> sent_count s \<longrightarrow>
      trace (rate_limit cfg now s) =
        trace s @ [RateLimitCheck] @ replicate (nat (batch_delay cfg)) (Sleep 1) @ [SetSentCount 0]
      \<and> (0 \<le> batch_delay cfg \<longrightarrow>
           slept (trace (rate_limit cfg now s)) = slept (trace s) + of_int (batch_delay cfg))
      \<and> sent_count (rate_limit cfg now s) = 0)
   \<and> (sent_count s < emails_per_batch cfg \<and> now - last_send_time s < delay_between_emails cfg \<longrightarrow>
      trace (rate_limit cfg now s) =
        trace s @ [RateLimitCheck, Sleep (delay_between_emails cfg - (now - last_send_time s))]
      \<and> slept (trace (rate_limit cfg now s)) =
          slept (trace s) + (delay_between_emails cfg - (now - last_send_time s))
      \<and> sent_count (rate_limit cfg now s) = sent_count s)
   \<and> (sent_count s < emails_per_batch cfg \<and> \<not> now - last_send_time s < delay_between_emails cfg \<longrightarrow>
      trace (rate_limit cfg now s) = trace s @ [RateLimitCheck]
      \<and> slept (trace (rate_limit cfg now s)) = slept (trace s)
      \<and> sent_count (rate_limit cfg now s) = sent_count s)"
  by (simp add: rate_limit_def Let_def slept_append countdown_sleeps slept_replicate)

theorem rate_limit_behaviour_witness:
  "emails_per_batch demo_config \<le> sent_count (init_state\<lparr>sent_count := 2\<rparr>)
   \<and> 0 \<le> batch_delay demo_config
   \<and> slept (trace (rate_limit demo_config 100 (init_state\<lparr>sent_count := 2\<rparr>))) = 10
   \<and> sent_count (rate_limit demo_config 100 (init_state\<lparr>sent_count := 2\<rparr>)) = 0
   \<and> sent_count (init_state\<lparr>last_send_time := 99.5\<rparr>) < emails_per_batch demo_config
   \<and> 100 - last_send_time (init_state\<lparr>last_send_time := 99.5\<rparr>) < delay_between_emails demo_config
   \<and> trace (rate_limit demo_config 100 (init_state\<lparr>last_send_time := 99.5\<rparr>)) =
       [RateLimitCheck, Sleep 0.5]
   \<and> sent_count init_state < emails_per_batch demo_config
   \<and> \<not> 100 - last_send_time init_state < delay_between_emails demo_config
   \<and> trace (rate_limit demo_config 100 init_state) = [RateLimitCheck]"
  using rate_limit_behaviour [of demo_config "init_state\<lparr>sent_count := 2\<rparr>" 100]
    rate_limit_behaviour [of demo_config "init_state\<lparr>last_send_time := 99.5\<rparr>" 100]
    rate_limit_behaviour [of demo_config init_state 100]
  by (simp add: demo_config_def init_state_def slept_append slept_replicate)

section \<open>Invariants of the loops\<close>

text \<open>A property of the state that one iteration of the attempt loop keeps is kept by the
  attempt loop, by the loop over the recipients and, when opening a session, reading the
  template and creating the results file keep it too, by a whole run.\<close>

lemma retry_loop_invariant:
  assumes step: "\<And>a t. P t \<Longrightarrow> P (snd (attempt_step en cfg addr a t))"
    and "P s"
  shows "P (snd (retry_loop en cfg addr as s))"
  using \<open>P s\<close>
proof (induction as arbitrary: s)
  case Nil
  then show ?case by simp
next
  case (Cons a as)
  from step [OF Cons.prems, of a] Cons.IH show ?case
    by (cases "attempt_step en cfg addr a s") (auto split: step.splits)
qed

lemma send_loop_invariant:
  assumes step: "\<And>addr a t. P t \<Longrightarrow> P (snd (attempt_step en cfg addr a t))"
    and "P s"
  shows "P (snd (send_loop en cfg rs s))"
  using \<open>P s\<close>
proof (induction rs arbitrary: s)
  case Nil
  then show ?case by simp
next
  case (Cons r rs)
  show ?case
  proof (cases "r ''email''")
    case None
    with Cons.prems show ?thesis by simp
  next
    case (Some addr)
    have "P (snd (retry_loop en cfg addr [0..<retries] s))"
      using step Cons.prems by (rule retry_loop_invariant)
    with Some Cons.IH show ?thesis
      by (cases "retry_loop en cfg addr [0..<retries] s") (auto split: option.splits)
  qed
qed

lemma send_newsletters_invariant:
  assumes step: "\<And>addr a t. P t \<Longrightarrow> P (snd (attempt_step en cfg addr a t))"
    and session: "\<And>r t. P t \<Longrightarrow> P (snd (open_session cfg r t))"
    and read: "\<And>t. P t \<Longrightarrow> P (emit [ReadTemplate] t)"
    and create: "\<And>t. P t \<Longrightarrow> P (t\<lparr>rows := [header]\<rparr>)"
    and "P s"
  shows "P (final (send_newsletters en cfg s))"
proof -
  obtain r1 s1 where p: "open_session cfg (preflight en) s = (r1, s1)"
    by (cases "open_session cfg (preflight en) s")
  obtain r3 s3 where c:
    "open_session cfg (connect0 en) ((emit [ReadTemplate] s1)\<lparr>rows := [header]\<rparr>) = (r3, s3)"
    by (cases "open_session cfg (connect0 en) ((emit [ReadTemplate] s1)\<lparr>rows := [header]\<rparr>)")
  have 1: "P s1"
    using session [OF \<open>P s\<close>, of "preflight en"] p by simp
  then have 2: "P (emit [ReadTemplate] s1)"
    by (rule read)
  then have "P ((emit [ReadTemplate] s1)\<lparr>rows := [header]\<rparr>)"
    by (rule create)
  from session [OF this, of "connect0 en"] c have 3: "P s3"
    by simp
  have 4: "P (snd (send_loop en cfg rs s3))" for rs
    using step 3 by (rule send_loop_invariant)
  show ?thesis
    using 1 2 3 4
    by (simp add: send_newsletters_def Let_def p c case_prod_beta split: option.split sum.split)
qed


text \<open>The same, for a run whose pre-flight check goes well and for a property that holds
  from the first read of the template on.\<close>

lemma send_newsletters_after_read:
  assumes step: "\<And>addr a t. P t \<Longrightarrow> P (snd (attempt_step en cfg addr a t))"
    and session: "\<And>r t. P t \<Longrightarrow> P (snd (open_session cfg r t))"
    and create: "\<And>t. P t \<Longrightarrow> P (t\<lparr>rows := [header]\<rparr>)"
    and pre: "preflight en = Connected"
    and start: "P (emit [ReadTemplate] (snd (open_session cfg Connected s)))"
  shows "P (final (send_newsletters en cfg s))"
proof -
  obtain s1 where p: "open_session cfg (preflight en) s = (None, s1)"
    using pre by (simp add: open_session_def)
  obtain r3 s3 where c:
    "open_session cfg (connect0 en) ((emit [ReadTemplate] s1)\<lparr>rows := [header]\<rparr>) = (r3, s3)"
    by (cases "open_session cfg (connect0 en) ((emit [ReadTemplate] s1)\<lparr>rows := [header]\<rparr>)")
  from start pre p have 2: "P (emit [ReadTemplate] s1)"
    by simp
  then have "P ((emit [ReadTemplate] s1)\<lparr>rows := [header]\<rparr>)"
    by (rule create)
  from session [OF this, of "connect0 en"] c have 3: "P s3"
    by simp
  have 4: "P (snd (send_loop en cfg rs s3))" for rs
    using step 3 by (rule send_loop_invariant)
  show ?thesis
    using 2 3 4
    by (simp add: send_newsletters_def Let_def p c case_prod_beta split: option.split sum.split)
qed

section \<open>The trace only grows\<close>

lemma open_session_grows: "\<exists>es. trace (snd (open_session cfg r t)) = trace t @ es"
  by (simp add: open_session_def split: session_result.split)

lemma attempt_step_grows: "\<exists>es. trace (snd (attempt_step en cfg addr a t)) = trace t @ es"
  by (simp add: attempt_step_def send_attempt_def on_exception_def open_session_def
      rate_limit_def Let_def split: sum.split option.split session_result.split)

lemma retry_loop_grows: "\<exists>es. trace (snd (retry_loop en cfg addr as s)) = trace s @ es"
proof (rule retry_loop_invariant [where P = "\<lambda>t. \<exists>es. trace t = trace s @ es"])
  show "\<exists>es. trace (snd (attempt_step en cfg addr a t)) = trace s @ es"
    if "\<exists>es. trace t = trace s @ es" for a t
    using that attempt_step_grows [of en cfg addr a t] by auto
qed simp

lemma send_loop_grows: "\<exists>es. trace (snd (send_loop en cfg rs s)) = trace s @ es"
proof (rule send_loop_invariant [where P = "\<lambda>t. \<exists>es. trace t = trace s @ es"])
  show "\<exists>es. trace (snd (attempt_step en cfg addr a t)) = trace s @ es"
    if "\<exists>es. trace t = trace s @ es" for addr a t
    using that attempt_step_grows [of en cfg addr a t] by auto
qed simp

section \<open>A run, recipient by recipient\<close>

lemma send_loop_append:
  "send_loop en cfg pre s = (None, s0) \<Longrightarrow>
   send_loop en cfg (pre @ post) s = send_loop en cfg post s0"
proof (induction pre arbitrary: s)
  case Nil
  then show ?case by simp
next
  case (Cons r pre)
  from Cons.prems obtain addr where addr: "r ''email'' = Some addr"
    by (cases "r ''email''") simp_all
  obtain x t where loop: "retry_loop en cfg addr [0..<retries] s = (x, t)"
    by (cases "retry_loop en cfg addr [0..<retries] s")
  with Cons.prems addr have x: "x = None" and rest: "send_loop en cfg pre t = (None, s0)"
    by (cases x; simp)+
  from Cons.IH [OF rest] addr loop x show ?case
    by simp
qed

lemma send_newsletters_loop:
  assumes "setup_ok en" and "recipients_read en = Inr rs"
  shows "send_newsletters en cfg s =
           (case send_loop en cfg rs (loop_start cfg s) of
              (x, u) \<Rightarrow> \<lparr>raised = x, results_file = Some (rows u), final = u\<rparr>)"
proof -
  from assms(1) obtain tpl where "template0 en = Inr tpl"
    by (cases "template0 en") (simp_all add: setup_ok_def)
  with assms show ?thesis
    by (simp add: send_newsletters_def setup_ok_def loop_start_def open_session_def Let_def)
qed

text \<open>A run that has reached a recipient: when the attempt loop of that recipient ends
  without an exception the run goes on with the recipients after it, and when it ends with
  an exception so does the run, in the state of the raise.\<close>

lemma reaches_loop:
  assumes "reaches en cfg s pre r post s0" and "r ''email'' = Some addr"
  shows "send_loop en cfg (pre @ r # post) (loop_start cfg s) =
           (case retry_loop en cfg addr [0..<retries] s0 of
              (Some ex, t) \<Rightarrow> (Some ex, t)
            | (None, t) \<Rightarrow> send_loop en cfg post t)"
  using assms send_loop_append [of en cfg pre "loop_start cfg s" s0 "r # post"]
  by (simp add: reaches_def)

lemma run_goes_on:
  assumes at: "reaches en cfg s pre r post s0" and addr: "r ''email'' = Some addr"
    and loop: "retry_loop en cfg addr [0..<retries] s0 = (None, t)"
  shows "send_loop en cfg (pre @ r # post) (loop_start cfg s) = send_loop en cfg post t"
    and "send_newsletters en cfg s =
           (case send_loop en cfg post t of
              (x, u) \<Rightarrow> \<lparr>raised = x, results_file = Some (rows u), final = u\<rparr>)"
proof -
  from reaches_loop [OF at addr] loop
  show 1: "send_loop en cfg (pre @ r # post) (loop_start cfg s) = send_loop en cfg post t"
    by simp
  from at have "setup_ok en" and "recipients_read en = Inr (pre @ r # post)"
    by (simp_all add: reaches_def)
  from send_newsletters_loop [OF this, of cfg s] 1
  show "send_newsletters en cfg s =
           (case send_loop en cfg post t of
              (x, u) \<Rightarrow> \<lparr>raised = x, results_file = Some (rows u), final = u\<rparr>)"
    by simp
qed

lemma run_aborts:
  assumes at: "reaches en cfg s pre r post s0" and addr: "r ''email'' = Some addr"
    and loop: "retry_loop en cfg addr [0..<retries] s0 = (Some ex, t)"
  shows "send_newsletters en cfg s =
           \<lparr>raised = Some ex, results_file = Some (rows t), final = t\<rparr>"
proof -
  from reaches_loop [OF at addr] loop
  have 1: "send_loop en cfg (pre @ r # post) (loop_start cfg s) = (Some ex, t)"
    by simp
  from at have "setup_ok en" and "recipients_read en = Inr (pre @ r # post)"
    by (simp_all add: reaches_def)
  from send_newsletters_loop [OF this, of cfg s] 1 show ?thesis
    by simp
qed

text \<open>The loop over the recipients starts with the first attempt for its first recipient.\<close>

lemma first_attempt_first:
  assumes "r ''email'' = Some addr"
  shows "\<exists>es. trace (snd (send_loop en cfg (r # rs) t)) =
           trace (snd (attempt_step en cfg addr 0 t)) @ es"
proof -
  obtain st u where step: "attempt_step en cfg addr 0 t = (st, u)"
    by (cases "attempt_step en cfg addr 0 t")
  show ?thesis
  proof (cases st)
    case Break
    with assms step send_loop_grows [of en cfg rs u] show ?thesis
      by (simp add: attempts_range)
  next
    case Continue
    obtain x v where loop: "retry_loop en cfg addr [1, 2] u = (x, v)"
      by (cases "retry_loop en cfg addr [1, 2] u")
    from retry_loop_grows [of en cfg addr "[1, 2]" u] loop
    obtain es where v: "trace v = trace u @ es"
      by auto
    show ?thesis
    proof (cases x)
      case None
      from send_loop_grows [of en cfg rs v] obtain es' where
        "trace (snd (send_loop en cfg rs v)) = trace v @ es'"
        by blast
      with None assms step Continue loop v show ?thesis
        by (simp add: attempts_range)
    next
      case (Some ex)
      with assms step Continue loop v show ?thesis
        by (simp add: attempts_range)
    qed
  next
    case (Raise ex)
    with assms step show ?thesis
      by (simp add: attempts_range)
  qed
qed

lemma run_next_recipient:
  assumes at: "reaches en cfg s pre r (r2 # post) s0" and addr: "r ''email'' = Some addr"
    and loop: "retry_loop en cfg addr [0..<retries] s0 = (None, t)"
    and nxt: "r2 ''email'' = Some addr2"
  shows "\<exists>es. trace (final (send_newsletters en cfg s)) =
           trace (snd (attempt_step en cfg addr2 0 t)) @ es"
proof -
  from run_goes_on(2) [OF at addr loop]
  have "final (send_newsletters en cfg s) = snd (send_loop en cfg (r2 # post) t)"
    by (simp add: case_prod_beta)
  with first_attempt_first [where r = r2, OF nxt, of en cfg post t] show ?thesis
    by simp
qed

text \<open>Only the answers of the attempt loop matter to the loops.\<close>

lemma attempt_step_ticks:
  "ticks en' = ticks en \<Longrightarrow> attempt_step en' cfg addr a s = attempt_step en cfg addr a s"
  by (simp add: attempt_step_def)

lemma retry_loop_ticks:
  assumes "ticks en' = ticks en"
  shows "retry_loop en' cfg addr as s = retry_loop en cfg addr as s"
proof (induction as arbitrary: s)
  case Nil
  show ?case by simp
next
  case (Cons a as)
  from attempt_step_ticks [OF assms] Cons.IH show ?case
    by (simp split: prod.split step.split)
qed

lemma send_loop_ticks:
  assumes "ticks en' = ticks en"
  shows "send_loop en' cfg rs s = send_loop en cfg rs s"
proof (induction rs arbitrary: s)
  case Nil
  show ?case by simp
next
  case (Cons r rs)
  from retry_loop_ticks [OF assms] Cons.IH show ?case
    by (simp split: option.split prod.split)
qed

section \<open>Evaluating the example inputs\<close>

lemma attempts_numeral: "[0..<3] = [0, 1, 2::nat]"
  by (simp add: upt_rec)

lemma demo_env_sel:
  "preflight (demo_env rs f) = Connected"
  "template0 (demo_env rs f) = Inr ''<p>Hello</p>''"
  "recipients_read (demo_env rs f) = Inr rs"
  "results_dir (demo_env rs f) = None"
  "results_open (demo_env rs f) = None"
  "connect0 (demo_env rs f) = Connected"
  "ticks (demo_env rs f) = f"
  by (simp_all add: demo_env_def)

lemmas step_defs = attempt_step_def send_attempt_def on_exception_def open_session_def
  rate_limit_def emit_def build_message_def countdown_sleeps Let_def retries_def attempts_numeral

lemmas input_defs = demo_env_sel demo_config_def init_state_def to_addr_def delivered_def
  refused_def dropped_def silent_failure_def edited_template_def silent_env_def edited_env_def
  three_delivered_def refused_then_delivered_def always_dropped_def two_delivered_def
  reconnect_refused_def

section \<open>One attempt\<close>

text \<open>
  Claim C5. When \<^verbatim>\<open>send_message\<close> returns, the row \<open>(email, success, "")\<close> is written,
  the counter is one more than the rate limiter left it, the time of the last delivery is
  the clock read after the delivery, the attempt loop of the recipient ends whatever
  attempts remain, and the loop over the recipients goes on with the next recipient: in a
  run that has reached the recipient, the rest of the run is the loop over the recipients
  after it, started in the state the delivery left; with no recipient left the run ends
  there without an exception, and otherwise it goes on with the first attempt for the
  next recipient, made in that state.
\<close>

theorem success_outcome:
  fixes en cfg addr attempt s
  defines "e \<equiv> ticks en (tick s)"
  defines "s1 \<equiv> rate_limit cfg (now_rl e) (s\<lparr>tick := Suc (tick s)\<rparr>)"
  defines "s' \<equiv> snd (attempt_step en cfg addr attempt s)"
  assumes "template_read e = Inr html" and "send_result e = None"
  shows "attempt_step en cfg addr attempt s = (Break, s')
         \<and> rows s' = rows s @ [[addr, ''success'', '''']]
         \<and> sent_count s' = sent_count s1 + 1
         \<and> last_send_time s' = now_sent e
         \<and> retry_loop en cfg addr (attempt # rest) s = (None, s')
         \<and> (reaches en cfg s_init pre r post s0 \<and> r ''email'' = Some addr
            \<and> retry_loop en cfg addr [0..<retries] s0 = retry_loop en cfg addr (attempt # rest) s \<longrightarrow>
              send_loop en cfg (pre @ r # post) (loop_start cfg s_init) = send_loop en cfg post s'
              \<and> send_newsletters en cfg s_init =
                  (case send_loop en cfg post s' of
                     (x, u) \<Rightarrow> \<lparr>raised = x, results_file = Some (rows u), final = u\<rparr>)
              \<and> (post = [] \<longrightarrow>
                   send_newsletters en cfg s_init =
                     \<lparr>raised = None, results_file = Some (rows s'), final = s'\<rparr>)
              \<and> (post = r2 # post' \<and> r2 ''email'' = Some addr2 \<longrightarrow>
                   (\<exists>es. trace (final (send_newsletters en cfg s_init)) =
                      trace (snd (attempt_step en cfg addr2 0 s')) @ es)))"
proof -
  have step: "attempt_step en cfg addr attempt s = (Break, s')
      \<and> rows s' = rows s @ [[addr, ''success'', '''']]
      \<and> sent_count s' = sent_count s1 + 1
      \<and> last_send_time s' = now_sent e
      \<and> retry_loop en cfg addr (attempt # rest) s = (None, s')"
    using assms by (simp add: attempt_step_def send_attempt_def Let_def)
  have run: "send_loop en cfg (pre @ r # post) (loop_start cfg s_init) = send_loop en cfg post s'
      \<and> send_newsletters en cfg s_init =
          (case send_loop en cfg post s' of
             (x, u) \<Rightarrow> \<lparr>raised = x, results_file = Some (rows u), final = u\<rparr>)
      \<and> (post = [] \<longrightarrow>
           send_newsletters en cfg s_init =
             \<lparr>raised = None, results_file = Some (rows s'), final = s'\<rparr>)
      \<and> (post = r2 # post' \<and> r2 ''email'' = Some addr2 \<longrightarrow>
           (\<exists>es. trace (final (send_newsletters en cfg s_init)) =
              trace (snd (attempt_step en cfg addr2 0 s')) @ es))"
    if at: "reaches en cfg s_init pre r post s0" and addr: "r ''email'' = Some addr"
      and link: "retry_loop en cfg addr [0..<retries] s0 =
        retry_loop en cfg addr (attempt # rest) s"
  proof -
    from link step have loop: "retry_loop en cfg addr [0..<retries] s0 = (None, s')"
      by simp
    note on = run_goes_on [where r = r, OF at addr loop]
    from on(2) have ended: "post = [] \<longrightarrow>
        send_newsletters en cfg s_init =
          \<lparr>raised = None, results_file = Some (rows s'), final = s'\<rparr>"
      by simp
    have nxt: "\<exists>es. trace (final (send_newsletters en cfg s_init)) =
        trace (snd (attempt_step en cfg addr2 0 s')) @ es"
      if p: "post = r2 # post'" and a2: "r2 ''email'' = Some addr2"
      using run_next_recipient [where r = r and ?r2.0 = r2, OF at [unfolded p] addr loop a2] .
    from on ended nxt show ?thesis
      by blast
  qed
  from step run show ?thesis
    by blast
qed

theorem success_outcome_witness:
  "template_read (ticks two_delivered (tick (loop_start demo_config init_state))) =
      Inr ''<p>Hello</p>''
   \<and> send_result (ticks two_delivered (tick (loop_start demo_config init_state))) = None
   \<and> reaches two_delivered demo_config init_state [] (to_addr ''a@x.com'') [to_addr ''b@x.com'']
        (loop_start demo_config init_state)
   \<and> fst (attempt_step two_delivered demo_config ''a@x.com'' 0
        (loop_start demo_config init_state)) = Break
   \<and> rows (snd (attempt_step two_delivered demo_config ''a@x.com'' 0
        (loop_start demo_config init_state))) = [header, [''a@x.com'', ''success'', '''']]
   \<and> sent_count (snd (attempt_step two_delivered demo_config ''a@x.com'' 0
        (loop_start demo_config init_state))) = 1
   \<and> last_send_time (snd (attempt_step two_delivered demo_config ''a@x.com'' 0
        (loop_start demo_config init_state))) = 100
   \<and> retry_loop two_delivered demo_config ''a@x.com'' [0, 1, 2]
        (loop_start demo_config init_state) =
        (None, snd (attempt_step two_delivered demo_config ''a@x.com'' 0
           (loop_start demo_config init_state)))
   \<and> send_loop two_delivered demo_config [to_addr ''a@x.com'', to_addr ''b@x.com'']
        (loop_start demo_config init_state) =
      send_loop two_delivered demo_config [to_addr ''b@x.com'']
        (snd (attempt_step two_delivered demo_config ''a@x.com'' 0
           (loop_start demo_config init_state)))
   \<and> (\<exists>es. trace (final (send_newsletters two_delivered demo_config init_state)) =
        trace (snd (attempt_step two_delivered demo_config ''b@x.com'' 0
          (snd (attempt_step two_delivered demo_config ''a@x.com'' 0
             (loop_start demo_config init_state))))) @ es)
   \<and> raised (send_newsletters two_delivered demo_config init_state) = None
   \<and> results_file (send_newsletters two_delivered demo_config init_state) =
        Some [header, [''a@x.com'', ''success'', ''''], [''b@x.com'', ''success'', '''']]"
proof -
  let ?S = "loop_start demo_config init_state"
  let ?T = "snd (attempt_step two_delivered demo_config ''a@x.com'' 0 ?S)"
  have h1: "template_read (ticks two_delivered (tick ?S)) = Inr ''<p>Hello</p>''"
    and h2: "send_result (ticks two_delivered (tick ?S)) = None"
    by (simp_all add: input_defs)
  have at: "reaches two_delivered demo_config init_state [] (to_addr ''a@x.com'')
      [to_addr ''b@x.com''] ?S"
    by (simp add: reaches_def setup_ok_def two_delivered_def demo_env_sel)
  have addr: "to_addr ''a@x.com'' ''email'' = Some ''a@x.com''"
    and addr2: "to_addr ''b@x.com'' ''email'' = Some ''b@x.com''"
    by (simp_all add: to_addr_def)
  have link: "retry_loop two_delivered demo_config ''a@x.com'' [0..<retries] ?S =
      retry_loop two_delivered demo_config ''a@x.com'' [0, 1, 2] ?S"
    by (simp only: attempts_range)
  note c = success_outcome [where en = two_delivered and s = ?S and cfg = demo_config
      and addr = "''a@x.com''" and attempt = 0 and rest = "[1, 2]" and s_init = init_state
      and pre = "[]" and r = "to_addr ''a@x.com''" and post = "[to_addr ''b@x.com'']"
      and ?s0.0 = ?S and ?r2.0 = "to_addr ''b@x.com''" and post' = "[]"
      and ?addr2.0 = "''b@x.com''", OF h1 h2, unfolded append_Nil]
  from c have "attempt_step two_delivered demo_config ''a@x.com'' 0 ?S = (Break, ?T)"
    by (rule conjunct1)
  then have brk: "fst (attempt_step two_delivered demo_config ''a@x.com'' 0 ?S) = Break"
    by (metis fst_conv)
  have vals: "rows ?T = [header, [''a@x.com'', ''success'', '''']]"
    "sent_count ?T = 1" "last_send_time ?T = 100"
    by (simp_all add: loop_start_def step_defs input_defs)
  have whole: "raised (send_newsletters two_delivered demo_config init_state) = None"
    "results_file (send_newsletters two_delivered demo_config init_state) =
        Some [header, [''a@x.com'', ''success'', ''''], [''b@x.com'', ''success'', '''']]"
    by (simp_all add: send_newsletters_def step_defs input_defs)
  from c at addr addr2 link h1 h2 brk vals whole show ?thesis
    by blast
qed




text \<open>
  Claim C10. A send attempt that fails, because the template cannot be read or because
  \<^verbatim>\<open>send_message\<close> raises (a disconnection or any other exception), leaves the counter and
  the time of the last delivery as it found them; a send attempt that changes either of
  them is a delivery. Over the whole iteration the counter is what the rate limiter left
  and the time of the last delivery is unchanged.
\<close>

theorem failed_attempt_frame:
  "(isl (template_read e) \<or> send_result e \<noteq> None \<longrightarrow>
      sent_count (snd (send_attempt e cfg addr attempt s)) = sent_count s
      \<and> last_send_time (snd (send_attempt e cfg addr attempt s)) = last_send_time s)
   \<and> (sent_count (snd (send_attempt e cfg addr attempt s)) \<noteq> sent_count s
        \<or> last_send_time (snd (send_attempt e cfg addr attempt s)) \<noteq> last_send_time s \<longrightarrow>
      \<not> isl (template_read e) \<and> send_result e = None)
   \<and> (isl (template_read (ticks en (tick s))) \<or> send_result (ticks en (tick s)) \<noteq> None \<longrightarrow>
      sent_count (snd (attempt_step en cfg addr attempt s)) =
        sent_count (rate_limit cfg (now_rl (ticks en (tick s))) (s\<lparr>tick := Suc (tick s)\<rparr>))
      \<and> last_send_time (snd (attempt_step en cfg addr attempt s)) = last_send_time s)"
proof -
  have fails: "sent_count (snd (send_attempt e' cfg addr attempt s')) = sent_count s'
      \<and> last_send_time (snd (send_attempt e' cfg addr attempt s')) = last_send_time s'"
    if "isl (template_read e') \<or> send_result e' \<noteq> None" for e' s'
    using that by (auto simp: send_attempt_def Let_def split: sum.splits option.splits)
  have first: "isl (template_read e) \<or> send_result e \<noteq> None \<longrightarrow>
      sent_count (snd (send_attempt e cfg addr attempt s)) = sent_count s
      \<and> last_send_time (snd (send_attempt e cfg addr attempt s)) = last_send_time s"
    using fails [of e s] by blast
  then have second: "sent_count (snd (send_attempt e cfg addr attempt s)) \<noteq> sent_count s
        \<or> last_send_time (snd (send_attempt e cfg addr attempt s)) \<noteq> last_send_time s \<longrightarrow>
      \<not> isl (template_read e) \<and> send_result e = None"
    by blast
  have third: "isl (template_read (ticks en (tick s))) \<or> send_result (ticks en (tick s)) \<noteq> None \<longrightarrow>
      sent_count (snd (attempt_step en cfg addr attempt s)) =
        sent_count (rate_limit cfg (now_rl (ticks en (tick s))) (s\<lparr>tick := Suc (tick s)\<rparr>))
      \<and> last_send_time (snd (attempt_step en cfg addr attempt s)) = last_send_time s"
    using fails [of "ticks en (tick s)"
        "rate_limit cfg (now_rl (ticks en (tick s))) (s\<lparr>tick := Suc (tick s)\<rparr>)"]
    by (simp add: attempt_step_def Let_def)
  from first second third show ?thesis by blast
qed

theorem failed_attempt_frame_witness:
  "send_result refused \<noteq> None
   \<and> sent_count (snd (send_attempt refused demo_config ''bad@x.com'' 0
        (init_state\<lparr>sent_count := 1, last_send_time := 50\<rparr>))) = 1
   \<and> last_send_time (snd (send_attempt refused demo_config ''bad@x.com'' 0
        (init_state\<lparr>sent_count := 1, last_send_time := 50\<rparr>))) = 50
   \<and> send_result dropped \<noteq> None
   \<and> sent_count (snd (send_attempt dropped demo_config ''a@x.com'' 2
        (init_state\<lparr>sent_count := 1, last_send_time := 50\<rparr>))) = 1
   \<and> last_send_time (snd (send_attempt dropped demo_config ''a@x.com'' 2
        (init_state\<lparr>sent_count := 1, last_send_time := 50\<rparr>))) = 50
   \<and> last_send_time (snd (attempt_step always_dropped demo_config ''a@x.com'' 0
        (init_state\<lparr>sent_count := 1, last_send_time := 50\<rparr>))) = 50"
proof -
  let ?s = "init_state\<lparr>sent_count := 1, last_send_time := 50\<rparr>"
  have h1: "send_result refused \<noteq> None" and h2: "send_result dropped \<noteq> None"
    and h3: "send_result (ticks always_dropped (tick ?s)) \<noteq> None"
    by (simp_all add: input_defs)
  from failed_attempt_frame [of refused demo_config "''bad@x.com''" 0 ?s] h1
    failed_attempt_frame [of dropped demo_config "''a@x.com''" 2 ?s] h2
    failed_attempt_frame [of dropped demo_config "''a@x.com''" 0 ?s always_dropped] h3
  show ?thesis
    by (simp add: init_state_def)
qed

section \<open>The attempt loop\<close>

lemma attempt_step_sends:
  "length (sent_messages (trace (snd (attempt_step en cfg addr a s))))
     \<le> Suc (length (sent_messages (trace s)))"
  by (simp add: attempt_step_def send_attempt_def on_exception_def open_session_def Let_def
      split: sum.split option.split session_result.split)

lemma attempt_step_tick: "tick (snd (attempt_step en cfg addr a s)) = Suc (tick s)"
  by (simp add: attempt_step_def send_attempt_def Let_def split: sum.split option.split)

lemma retry_loop_bounds:
  "length (sent_messages (trace (snd (retry_loop en cfg addr as s))))
     \<le> length (sent_messages (trace s)) + length as
   \<and> tick (snd (retry_loop en cfg addr as s)) \<le> tick s + length as"
proof (induction as arbitrary: s)
  case Nil
  then show ?case by simp
next
  case (Cons a as)
  obtain st t where step: "attempt_step en cfg addr a s = (st, t)"
    by (cases "attempt_step en cfg addr a s")
  from attempt_step_sends [of en cfg addr a s] attempt_step_tick [of en cfg addr a s] step
  have t: "length (sent_messages (trace t)) \<le> Suc (length (sent_messages (trace s)))"
    "tick t = Suc (tick s)"
    by simp_all
  show ?case
  proof (cases st)
    case Continue
    with step t Cons.IH [of t] show ?thesis by simp
  qed (use step t in simp_all)
qed

text \<open>The attempt loop starts with its first attempt.\<close>

lemma retry_loop_first:
  "\<exists>es. trace (snd (retry_loop en cfg addr (a # as) t)) =
     trace (snd (attempt_step en cfg addr a t)) @ es"
proof -
  obtain st u where step: "attempt_step en cfg addr a t = (st, u)"
    by (cases "attempt_step en cfg addr a t")
  show ?thesis
  proof (cases st)
    case Continue
    with step retry_loop_grows [of en cfg addr as u] show ?thesis by simp
  qed (use step in simp_all)
qed

text \<open>A disconnection before the last allowed attempt, followed by a reconnection that
  succeeds, lets the attempt loop go on.\<close>

lemma attempt_step_dropped:
  assumes "template_read (ticks en (tick s)) = Inr html"
    and "send_result (ticks en (tick s)) = Some ex" and "cls ex = SMTPServerDisconnected"
    and "a < retries - 1" and "reconnect (ticks en (tick s)) = Connected"
  shows "fst (attempt_step en cfg addr a s) = Continue"
    and "rows (snd (attempt_step en cfg addr a s)) = rows s"
  using assms
  by (simp_all add: attempt_step_def send_attempt_def on_exception_def open_session_def Let_def)

text \<open>
  Claim C2, as the code has it. A recipient gets at most three send attempts. When
  \<^verbatim>\<open>send_message\<close> raises a disconnection and attempts remain, the program sleeps 5
  seconds and opens a new session with the configured host, port and credentials. When
  that succeeds, the attempt loop goes on with the next attempt for the same recipient;
  when the connection or the login of the new session fails, its exception leaves the
  attempt loop, with attempts remaining. On the last attempt the disconnection leaves the
  attempt loop as an exception. In a run that has reached the recipient, an exception that
  leaves the attempt loop ends the run with that exception: no row is written for the
  recipient and the recipients after it are not touched.
\<close>

theorem retry_policy:
  fixes en cfg addr attempt s html
  defines "e \<equiv> ticks en (tick s)"
  defines "sent \<equiv>
    emit [ReadTemplate, Send (build_message cfg addr html)]
      (rate_limit cfg (now_rl e) (s\<lparr>tick := Suc (tick s)\<rparr>))"
  defines "dialled \<equiv> emit [Sleep 5, Connect (smtp_host cfg) (smtp_port cfg)] sent"
  defines "again \<equiv>
    emit [Sleep 5, Connect (smtp_host cfg) (smtp_port cfg),
          Login (smtp_username cfg) (smtp_password cfg)] sent"
  assumes "template_read e = Inr html" and "send_result e = Some ex"
    and "cls ex = SMTPServerDisconnected"
  shows "(attempt < retries - 1 \<and> reconnect e = Connected \<longrightarrow>
            retry_loop en cfg addr (attempt # rest) s = retry_loop en cfg addr rest again
            \<and> (rest = a2 # rest' \<longrightarrow>
                 (\<exists>es. trace (snd (retry_loop en cfg addr (attempt # rest) s)) =
                    trace (snd (attempt_step en cfg addr a2 again)) @ es)))
         \<and> (attempt < retries - 1 \<and> reconnect e = ConnectFailed x \<longrightarrow>
              retry_loop en cfg addr (attempt # rest) s = (Some x, dialled))
         \<and> (attempt < retries - 1 \<and> reconnect e = LoginFailed x \<longrightarrow>
              retry_loop en cfg addr (attempt # rest) s = (Some x, again))
         \<and> (attempt < retries - 1 \<longrightarrow>
              (\<exists>es. trace (snd (attempt_step en cfg addr attempt s)) =
                 trace sent @ Sleep 5 # Connect (smtp_host cfg) (smtp_port cfg) # es))
         \<and> (\<not> attempt < retries - 1 \<longrightarrow>
              retry_loop en cfg addr (attempt # rest) s = (Some ex, sent))
         \<and> (reaches en cfg s_init pre r post s0 \<and> r ''email'' = Some addr
            \<and> retry_loop en cfg addr [0..<retries] s0 = retry_loop en cfg addr (attempt # rest) s \<longrightarrow>
              (\<not> attempt < retries - 1 \<longrightarrow>
                 send_newsletters en cfg s_init =
                   \<lparr>raised = Some ex, results_file = Some (rows s), final = sent\<rparr>)
              \<and> (attempt < retries - 1 \<and> reconnect e = ConnectFailed x \<longrightarrow>
                   send_newsletters en cfg s_init =
                     \<lparr>raised = Some x, results_file = Some (rows s), final = dialled\<rparr>)
              \<and> (attempt < retries - 1 \<and> reconnect e = LoginFailed x \<longrightarrow>
                   send_newsletters en cfg s_init =
                     \<lparr>raised = Some x, results_file = Some (rows s), final = again\<rparr>))
         \<and> length (sent_messages (trace (snd (retry_loop en cfg addr [0..<retries] s0))))
              \<le> length (sent_messages (trace s0)) + 3
         \<and> tick (snd (retry_loop en cfg addr [0..<retries] s0)) \<le> tick s0 + 3"
proof -
  have goes: "retry_loop en cfg addr (attempt # rest) s = retry_loop en cfg addr rest again"
    if "attempt < retries - 1" and "reconnect e = Connected"
    using that assms
    by (simp add: attempt_step_def send_attempt_def on_exception_def open_session_def Let_def
        emit_def)
  have retried: "attempt < retries - 1 \<and> reconnect e = Connected \<longrightarrow>
      retry_loop en cfg addr (attempt # rest) s = retry_loop en cfg addr rest again
      \<and> (rest = a2 # rest' \<longrightarrow>
           (\<exists>es. trace (snd (retry_loop en cfg addr (attempt # rest) s)) =
              trace (snd (attempt_step en cfg addr a2 again)) @ es))"
  proof (intro impI conjI)
    assume "attempt < retries - 1 \<and> reconnect e = Connected"
    with goes show "retry_loop en cfg addr (attempt # rest) s = retry_loop en cfg addr rest again"
      by blast
  next
    assume c: "attempt < retries - 1 \<and> reconnect e = Connected" and r: "rest = a2 # rest'"
    from c goes
    have g: "retry_loop en cfg addr (attempt # rest) s = retry_loop en cfg addr rest again"
      by blast
    show "\<exists>es. trace (snd (retry_loop en cfg addr (attempt # rest) s)) =
        trace (snd (attempt_step en cfg addr a2 again)) @ es"
      unfolding g unfolding r by (rule retry_loop_first)
  qed
  have refused: "attempt < retries - 1 \<and> reconnect e = ConnectFailed x \<longrightarrow>
      retry_loop en cfg addr (attempt # rest) s = (Some x, dialled)"
    using assms
    by (simp add: attempt_step_def send_attempt_def on_exception_def open_session_def Let_def
        emit_def)
  have denied: "attempt < retries - 1 \<and> reconnect e = LoginFailed x \<longrightarrow>
      retry_loop en cfg addr (attempt # rest) s = (Some x, again)"
    using assms
    by (simp add: attempt_step_def send_attempt_def on_exception_def open_session_def Let_def
        emit_def)
  have wait: "attempt < retries - 1 \<longrightarrow>
      (\<exists>es. trace (snd (attempt_step en cfg addr attempt s)) =
         trace sent @ Sleep 5 # Connect (smtp_host cfg) (smtp_port cfg) # es)"
    using assms
    by (simp add: attempt_step_def send_attempt_def on_exception_def open_session_def Let_def
        split: session_result.split)
  have last: "\<not> attempt < retries - 1 \<longrightarrow>
      retry_loop en cfg addr (attempt # rest) s = (Some ex, sent)"
    using assms by (simp add: attempt_step_def send_attempt_def on_exception_def Let_def)
  have kept: "rows sent = rows s" "rows dialled = rows s" "rows again = rows s"
    by (simp_all add: sent_def dialled_def again_def)
  have abort: "(\<not> attempt < retries - 1 \<longrightarrow>
         send_newsletters en cfg s_init =
           \<lparr>raised = Some ex, results_file = Some (rows s), final = sent\<rparr>)
      \<and> (attempt < retries - 1 \<and> reconnect e = ConnectFailed x \<longrightarrow>
           send_newsletters en cfg s_init =
             \<lparr>raised = Some x, results_file = Some (rows s), final = dialled\<rparr>)
      \<and> (attempt < retries - 1 \<and> reconnect e = LoginFailed x \<longrightarrow>
           send_newsletters en cfg s_init =
             \<lparr>raised = Some x, results_file = Some (rows s), final = again\<rparr>)"
    if at: "reaches en cfg s_init pre r post s0" and addr: "r ''email'' = Some addr"
      and link: "retry_loop en cfg addr [0..<retries] s0 =
        retry_loop en cfg addr (attempt # rest) s"
  proof -
    have run: "send_newsletters en cfg s_init =
        \<lparr>raised = Some y, results_file = Some (rows s), final = t\<rparr>"
      if "retry_loop en cfg addr (attempt # rest) s = (Some y, t)" and "rows t = rows s" for y t
      using run_aborts [where r = r, OF at addr link [unfolded that(1)]] that(2) by simp
    from run [of ex sent] run [of x dialled] run [of x again] last refused denied kept
    show ?thesis
      by blast
  qed
  from retry_loop_bounds [of en cfg addr "[0..<retries]" s0]
  have bounds: "length (sent_messages (trace (snd (retry_loop en cfg addr [0..<retries] s0))))
        \<le> length (sent_messages (trace s0)) + 3
      \<and> tick (snd (retry_loop en cfg addr [0..<retries] s0)) \<le> tick s0 + 3"
    by (simp add: retries_def)
  from retried refused denied wait last abort bounds show ?thesis by blast
qed

theorem retry_policy_witness:
  "template_read (ticks always_dropped (tick (loop_start demo_config init_state))) =
      Inr ''<p>Hello</p>''
   \<and> send_result (ticks always_dropped (tick (loop_start demo_config init_state))) =
        Some (Exn SMTPServerDisconnected ''Server not connected'')
   \<and> cls (Exn SMTPServerDisconnected ''Server not connected'') = SMTPServerDisconnected
   \<and> 0 < retries - 1
   \<and> reconnect (ticks always_dropped (tick (loop_start demo_config init_state))) = Connected
   \<and> fst (attempt_step always_dropped demo_config ''a@x.com'' 0
        (loop_start demo_config init_state)) = Continue
   \<and> (\<exists>es. trace (snd (retry_loop always_dropped demo_config ''a@x.com'' [0, 1, 2]
                 (loop_start demo_config init_state))) =
        trace (snd (attempt_step always_dropped demo_config ''a@x.com'' 1
          (emit [Sleep 5, Connect (smtp_host demo_config) (smtp_port demo_config),
                 Login (smtp_username demo_config) (smtp_password demo_config)]
            (emit [ReadTemplate, Send (build_message demo_config ''a@x.com'' ''<p>Hello</p>'')]
              (rate_limit demo_config
                 (now_rl (ticks always_dropped (tick (loop_start demo_config init_state))))
                 ((loop_start demo_config init_state)
                    \<lparr>tick := Suc (tick (loop_start demo_config init_state))\<rparr>)))))) @ es)
   \<and> \<not> 2 < retries - 1
   \<and> reaches always_dropped demo_config init_state [] (to_addr ''a@x.com'') [to_addr ''b@x.com'']
        (loop_start demo_config init_state)
   \<and> fst (retry_loop always_dropped demo_config ''a@x.com'' [0..<retries]
        (loop_start demo_config init_state)) =
        Some (Exn SMTPServerDisconnected ''Server not connected'')
   \<and> length (sent_messages (trace (snd
        (retry_loop always_dropped demo_config ''a@x.com'' [0..<retries]
           (loop_start demo_config init_state))))) = 3
   \<and> raised (send_newsletters always_dropped demo_config init_state) =
        Some (Exn SMTPServerDisconnected ''Server not connected'')
   \<and> results_file (send_newsletters always_dropped demo_config init_state) = Some [header]"
proof -
  let ?ex = "Exn SMTPServerDisconnected ''Server not connected''"
  let ?S = "loop_start demo_config init_state"
  define U1 where "U1 = snd (attempt_step always_dropped demo_config ''a@x.com'' 0 ?S)"
  define U2 where "U2 = snd (attempt_step always_dropped demo_config ''a@x.com'' 1 U1)"
  have h: "template_read (ticks always_dropped (tick u)) = Inr ''<p>Hello</p>''"
    "send_result (ticks always_dropped (tick u)) = Some ?ex"
    "reconnect (ticks always_dropped (tick u)) = Connected" for u
    by (simp_all add: input_defs)
  have h3: "cls ?ex = SMTPServerDisconnected"
    and h4: "0 < retries - 1" and h4': "1 < retries - 1" and h5: "\<not> 2 < retries - 1"
    by (simp_all add: retries_def)
  have at: "reaches always_dropped demo_config init_state [] (to_addr ''a@x.com'')
      [to_addr ''b@x.com''] ?S"
    by (simp add: reaches_def setup_ok_def always_dropped_def demo_env_sel)
  have addr: "to_addr ''a@x.com'' ''email'' = Some ''a@x.com''"
    by (simp add: to_addr_def)
  note d1 = attempt_step_dropped [where en = always_dropped and s = ?S and cfg = demo_config
      and addr = "''a@x.com''" and a = 0, OF h(1) h(2) h3 h4 h(3)]
  note d2 = attempt_step_dropped [where en = always_dropped and s = U1 and cfg = demo_config
      and addr = "''a@x.com''" and a = 1, OF h(1) h(2) h3 h4' h(3)]
  from d1(1) have s1: "attempt_step always_dropped demo_config ''a@x.com'' 0 ?S = (Continue, U1)"
    unfolding U1_def by (metis prod.collapse)
  from d2(1) have s2: "attempt_step always_dropped demo_config ''a@x.com'' 1 U1 = (Continue, U2)"
    unfolding U2_def by (metis prod.collapse)
  have link: "retry_loop always_dropped demo_config ''a@x.com'' [0..<retries] ?S =
      retry_loop always_dropped demo_config ''a@x.com'' [2] U2"
    unfolding attempts_range using s1 s2 by simp
  from d1(2) d2(2) have "rows U2 = rows ?S"
    unfolding U1_def U2_def by simp
  then have kept: "rows U2 = [header]"
    by (simp add: loop_start_def open_session_def emit_def)
  note first = retry_policy [where en = always_dropped and s = ?S and cfg = demo_config
      and addr = "''a@x.com''" and attempt = 0 and rest = "[1, 2]" and ?a2.0 = 1
      and rest' = "[2]", OF h(1) h(2) h3]
  from first h4 h(3) [of ?S]
  have retried: "\<exists>es. trace (snd (retry_loop always_dropped demo_config ''a@x.com'' [0, 1, 2] ?S)) =
        trace (snd (attempt_step always_dropped demo_config ''a@x.com'' 1
          (emit [Sleep 5, Connect (smtp_host demo_config) (smtp_port demo_config),
                 Login (smtp_username demo_config) (smtp_password demo_config)]
            (emit [ReadTemplate, Send (build_message demo_config ''a@x.com'' ''<p>Hello</p>'')]
              (rate_limit demo_config (now_rl (ticks always_dropped (tick ?S)))
                 (?S\<lparr>tick := Suc (tick ?S)\<rparr>)))))) @ es"
    by blast
  note third = retry_policy [where en = always_dropped and s = U2 and cfg = demo_config
      and addr = "''a@x.com''" and attempt = 2 and rest = "[]" and s_init = init_state
      and pre = "[]" and r = "to_addr ''a@x.com''" and post = "[to_addr ''b@x.com'']"
      and ?s0.0 = ?S, OF h(1) h(2) h3]
  from third h5 at addr link
  have "send_newsletters always_dropped demo_config init_state =
      \<lparr>raised = Some ?ex, results_file = Some (rows U2),
       final = emit [ReadTemplate, Send (build_message demo_config ''a@x.com'' ''<p>Hello</p>'')]
         (rate_limit demo_config (now_rl (ticks always_dropped (tick U2)))
            (U2\<lparr>tick := Suc (tick U2)\<rparr>))\<rparr>"
    by blast
  with kept
  have aborted: "raised (send_newsletters always_dropped demo_config init_state) = Some ?ex"
    "results_file (send_newsletters always_dropped demo_config init_state) = Some [header]"
    by simp_all
  have run: "fst (retry_loop always_dropped demo_config ''a@x.com'' [0..<retries] ?S) = Some ?ex"
    and three: "length (sent_messages (trace (snd
        (retry_loop always_dropped demo_config ''a@x.com'' [0..<retries] ?S)))) = 3"
    by (simp_all add: loop_start_def step_defs input_defs)
  have whole: "send_newsletters always_dropped demo_config init_state =
      (case send_loop always_dropped demo_config [to_addr ''a@x.com'', to_addr ''b@x.com''] ?S of
         (x, u) \<Rightarrow> \<lparr>raised = x, results_file = Some (rows u), final = u\<rparr>)"
    by (simp add: send_newsletters_def loop_start_def open_session_def Let_def
        always_dropped_def demo_env_sel)
  have "fst (send_loop always_dropped demo_config [to_addr ''a@x.com'', to_addr ''b@x.com''] ?S) =
      Some ?ex"
    by (simp add: loop_start_def step_defs input_defs)
  with whole
  have evaluated: "raised (send_newsletters always_dropped demo_config init_state) = Some ?ex"
    by (simp add: case_prod_beta)
  from h [of ?S] h3 h4 h5 d1(1) retried at run three aborted evaluated show ?thesis
    by blast
qed

text \<open>The claim as the specification states it fails when the reconnection itself fails:
  the first attempt for the first recipient is disconnected with two attempts remaining,
  the new connection is refused, and the run ends with that exception after one send and
  one iteration of the attempt loop; the recipient is not retried and gets no row.\<close>

theorem reconnect_failure_aborts:
  "send_result (ticks reconnect_refused 0) =
      Some (Exn SMTPServerDisconnected ''Server not connected'')
   \<and> 0 < retries - 1
   \<and> raised (send_newsletters reconnect_refused demo_config init_state) =
       Some (Exn OtherException ''Connection refused'')
   \<and> tick (final (send_newsletters reconnect_refused demo_config init_state)) = 1
   \<and> map msg_to (sent_messages
        (trace (final (send_newsletters reconnect_refused demo_config init_state)))) = [''a@x.com'']
   \<and> results_file (send_newsletters reconnect_refused demo_config init_state) = Some [header]"
  by (simp add: send_newsletters_def step_defs input_defs)

section \<open>The pre-flight check\<close>

text \<open>
  Claim C6. When the login of the pre-flight check fails, the run ends with that
  exception after the connection and the login of the check and nothing else: the results
  file is not created, no row is written, no iteration of the attempt loop is started and
  no message is sent.
\<close>

theorem preflight_auth_failure:
  assumes "preflight en = LoginFailed ex"
  shows "send_newsletters en cfg s =
           \<lparr>raised = Some ex, results_file = None,
            final = emit [Connect (smtp_host cfg) (smtp_port cfg),
                          Login (smtp_username cfg) (smtp_password cfg)] s\<rparr>
         \<and> rows (final (send_newsletters en cfg s)) = rows s
         \<and> tick (final (send_newsletters en cfg s)) = tick s
         \<and> sent_messages (trace (final (send_newsletters en cfg s))) = sent_messages (trace s)"
  using assms by (simp add: send_newsletters_def open_session_def)

theorem preflight_auth_failure_witness:
  "preflight bad_credentials = LoginFailed (Exn SMTPAuthenticationError ''Authentication failed'')
   \<and> raised (send_newsletters bad_credentials demo_config init_state) =
       Some (Exn SMTPAuthenticationError ''Authentication failed'')
   \<and> results_file (send_newsletters bad_credentials demo_config init_state) = None
   \<and> rows (final (send_newsletters bad_credentials demo_config init_state)) = []
   \<and> tick (final (send_newsletters bad_credentials demo_config init_state)) = 0
   \<and> sent_messages (trace (final (send_newsletters bad_credentials demo_config init_state))) = []"
proof -
  have h: "preflight bad_credentials =
      LoginFailed (Exn SMTPAuthenticationError ''Authentication failed'')"
    by (simp add: bad_credentials_def)
  from preflight_auth_failure [OF h, of demo_config init_state] h show ?thesis
    by (simp add: init_state_def)
qed

section \<open>The rate limiter before every send\<close>



lemma guarded_sleeps [simp]: "guarded b (replicate n (Sleep d) @ es) = guarded b es"
  by (induction n) simp_all





section \<open>The counter and the batch size\<close>

lemma attempt_step_within_batch:
  "1 \<le> emails_per_batch cfg \<Longrightarrow> within_batch cfg s \<Longrightarrow>
   within_batch cfg (snd (attempt_step en cfg addr a s))"
  by (auto simp: within_batch_def attempt_step_def send_attempt_def on_exception_def
      open_session_def rate_limit_def Let_def countdown_sleeps
      split: sum.splits option.splits session_result.splits)

text \<open>
  Claim C9. With a batch size of at least 1, a run that starts with the counter within
  the batch size (it is 0 in a new \<^verbatim>\<open>NewsletterSender\<close>) never gives the counter a value
  above the batch size: every value assigned to it during the run, and its final value,
  are at most \<open>emails_per_batch\<close>.
\<close>

theorem sent_count_within_batch:
  assumes "1 \<le> emails_per_batch cfg" and "within_batch cfg s"
  shows "within_batch cfg (final (send_newsletters en cfg s))"
proof (rule send_newsletters_invariant [where P = "within_batch cfg"])
  show "within_batch cfg s" by (rule assms)
  show "within_batch cfg (snd (attempt_step en cfg addr a t))" if "within_batch cfg t" for addr a t
    using assms(1) that by (rule attempt_step_within_batch)
qed (auto simp: within_batch_def open_session_def split: session_result.splits)

theorem sent_count_within_batch_witness:
  "1 \<le> emails_per_batch demo_config
   \<and> within_batch demo_config init_state
   \<and> within_batch demo_config (final (send_newsletters three_delivered demo_config init_state))"
proof -
  have h1: "1 \<le> emails_per_batch demo_config" and h2: "within_batch demo_config init_state"
    by (simp_all add: within_batch_def demo_config_def init_state_def)
  from sent_count_within_batch [OF h1 h2] h1 h2 show ?thesis
    by blast
qed

section \<open>The results file\<close>

lemma on_exception_rows:
  "on_exception e cfg addr a ex s = (st, s') \<Longrightarrow>
   (st = Break \<longrightarrow> rows s' = rows s @ [[addr, ''failed'', str ex]])
   \<and> (st = Continue \<longrightarrow> rows s' = rows s \<and> a < retries - 1)"
  by (auto simp: on_exception_def open_session_def split: if_splits session_result.splits)

lemma attempt_step_rows:
  assumes "attempt_step en cfg addr a s = (st, s')"
  shows "(st = Break \<longrightarrow>
           (\<exists>status msg. rows s' = rows s @ [[addr, status, msg]]
              \<and> (status = ''success'' \<and> msg = [] \<or> status = ''failed'')))
         \<and> (st = Continue \<longrightarrow> rows s' = rows s \<and> a < retries - 1)"
proof (cases "template_read (ticks en (tick s))")
  case (Inl ex)
  let ?s1 = "emit [ReadTemplate]
    (rate_limit cfg (now_rl (ticks en (tick s))) (s\<lparr>tick := Suc (tick s)\<rparr>))"
  from Inl assms have "on_exception (ticks en (tick s)) cfg addr a ex ?s1 = (st, s')"
    by (simp add: attempt_step_def send_attempt_def Let_def)
  from on_exception_rows [OF this] show ?thesis
    by simp
next
  case (Inr html)
  show ?thesis
  proof (cases "send_result (ticks en (tick s))")
    case None
    with Inr assms show ?thesis
      by (auto simp: attempt_step_def send_attempt_def Let_def)
  next
    case (Some ex)
    let ?s1 = "emit [ReadTemplate, Send (build_message cfg addr html)]
      (rate_limit cfg (now_rl (ticks en (tick s))) (s\<lparr>tick := Suc (tick s)\<rparr>))"
    from Some Inr assms have "on_exception (ticks en (tick s)) cfg addr a ex ?s1 = (st, s')"
      by (simp add: attempt_step_def send_attempt_def Let_def)
    from on_exception_rows [OF this] show ?thesis
      by simp
  qed
qed

text \<open>An attempt loop that ends without an exception has written one row, unless it ran out
  of attempts, all of them before the last allowed one.\<close>

lemma retry_loop_rows:
  "retry_loop en cfg addr as s = (None, s') \<Longrightarrow>
   (\<exists>status msg. rows s' = rows s @ [[addr, status, msg]]
      \<and> (status = ''success'' \<and> msg = [] \<or> status = ''failed''))
   \<or> (rows s' = rows s \<and> (\<forall>a\<in>set as. a < retries - 1))"
proof (induction as arbitrary: s)
  case Nil
  then show ?case by simp
next
  case (Cons a as)
  obtain st t where step: "attempt_step en cfg addr a s = (st, t)"
    by (cases "attempt_step en cfg addr a s")
  note rows = attempt_step_rows [OF step]
  show ?case
  proof (cases st)
    case Break
    with Cons.prems step have "s' = t" by simp
    with Break rows show ?thesis by blast
  next
    case Continue
    with Cons.prems step have "retry_loop en cfg addr as t = (None, s')" by simp
    from Cons.IH [OF this] Continue rows show ?thesis by auto
  next
    case (Raise ex)
    with Cons.prems step show ?thesis by simp
  qed
qed

lemma recipient_row:
  assumes "retry_loop en cfg addr [0..<retries] s = (None, s')" and "r ''email'' = Some addr"
  shows "\<exists>row. rows s' = rows s @ [row] \<and> row_of r row"
proof -
  have "\<not> (\<forall>a\<in>set [0..<retries]. a < retries - 1)"
    unfolding attempts_range by (simp add: retries_def)
  with retry_loop_rows [OF assms(1)] obtain status msg
    where "rows s' = rows s @ [[addr, status, msg]]"
      and "status = ''success'' \<and> msg = [] \<or> status = ''failed''"
    by blast
  with assms(2) show ?thesis
    by (auto simp: row_of_def)
qed

lemma send_loop_rows:
  "send_loop en cfg rs s = (None, s') \<Longrightarrow>
   \<exists>outs. rows s' = rows s @ outs \<and> list_all2 row_of rs outs"
proof (induction rs arbitrary: s)
  case Nil
  then show ?case by simp
next
  case (Cons r rs)
  from Cons.prems obtain addr where addr: "r ''email'' = Some addr"
    by (cases "r ''email''") simp_all
  obtain x t where loop: "retry_loop en cfg addr [0..<retries] s = (x, t)"
    by (cases "retry_loop en cfg addr [0..<retries] s")
  with Cons.prems addr have x: "x = None" and rest: "send_loop en cfg rs t = (None, s')"
    by (cases x; simp)+
  from loop x have "retry_loop en cfg addr [0..<retries] s = (None, t)"
    by simp
  from recipient_row [where r = r, OF this addr] obtain row
    where row: "rows t = rows s @ [row]" "row_of r row"
    by blast
  from Cons.IH [OF rest] obtain outs
    where outs: "rows s' = rows t @ outs" "list_all2 row_of rs outs"
    by blast
  from row outs have "rows s' = rows s @ (row # outs) \<and> list_all2 row_of (r # rs) (row # outs)"
    by simp
  then show ?case by blast
qed

text \<open>
  Claim C1. When a run ends without an exception, the results file holds the header and
  then exactly one row for each recipient of the list that was read, in the order of the
  list: the row of a recipient starts with that recipient's address and is either
  \<open>(email, success, "")\<close> or \<open>(email, failed, message)\<close>.
\<close>

theorem one_row_per_recipient:
  assumes "raised (send_newsletters en cfg s) = None" and "recipients_read en = Inr rs"
  shows "\<exists>outs. results_file (send_newsletters en cfg s) = Some (header # outs)
           \<and> length outs = length rs
           \<and> list_all2 row_of rs outs
           \<and> map (\<lambda>row. Some (hd row)) outs = map (\<lambda>r. r ''email'') rs"
proof -
  obtain r1 s1 where p: "open_session cfg (preflight en) s = (r1, s1)"
    by (cases "open_session cfg (preflight en) s")
  obtain r3 s3 where c:
    "open_session cfg (connect0 en) ((emit [ReadTemplate] s1)\<lparr>rows := [header]\<rparr>) = (r3, s3)"
    by (cases "open_session cfg (connect0 en) ((emit [ReadTemplate] s1)\<lparr>rows := [header]\<rparr>)")
  obtain r4 s4 where l: "send_loop en cfg rs s3 = (r4, s4)"
    by (cases "send_loop en cfg rs s3")
  from open_session_frame(3) [of cfg "connect0 en" "(emit [ReadTemplate] s1)\<lparr>rows := [header]\<rparr>"] c
  have s3: "rows s3 = [header]"
    by simp
  from assms p c l
  have ended: "r4 = None" and written: "results_file (send_newsletters en cfg s) = Some (rows s4)"
    by (simp_all add: send_newsletters_def Let_def split: option.splits sum.splits)
  from send_loop_rows [OF l [unfolded ended]] s3 obtain outs
    where outs: "rows s4 = header # outs" "list_all2 row_of rs outs"
    by auto
  from outs(2) have "map (\<lambda>row. Some (hd row)) outs = map (\<lambda>r. r ''email'') rs"
    by (induction rule: list_all2_induct) (auto simp: row_of_def split: list.splits)
  with written outs show ?thesis
    by (auto dest: list_all2_lengthD)
qed

theorem one_row_per_recipient_witness:
  "raised (send_newsletters refused_then_delivered demo_config init_state) = None
   \<and> recipients_read refused_then_delivered = Inr [to_addr ''bad@x.com'', to_addr ''a@x.com'']
   \<and> results_file (send_newsletters refused_then_delivered demo_config init_state) =
       Some [header, [''bad@x.com'', ''failed'', ''mailbox unavailable''],
             [''a@x.com'', ''success'', '''']]"
proof -
  have h1: "raised (send_newsletters refused_then_delivered demo_config init_state) = None"
    and written: "results_file (send_newsletters refused_then_delivered demo_config init_state) =
       Some [header, [''bad@x.com'', ''failed'', ''mailbox unavailable''],
             [''a@x.com'', ''success'', '''']]"
    by (simp_all add: send_newsletters_def step_defs input_defs)
  have h2: "recipients_read refused_then_delivered =
      Inr [to_addr ''bad@x.com'', to_addr ''a@x.com'']"
    by (simp add: refused_then_delivered_def demo_env_sel)
  from one_row_per_recipient [OF h1 h2] h1 h2 written show ?thesis
    by blast
qed

section \<open>The template\<close>

lemma attempt_step_reads:
  "template_reads (trace (snd (attempt_step en cfg addr a t))) = Suc (template_reads (trace t))"
  by (simp add: attempt_step_def send_attempt_def on_exception_def open_session_def Let_def
      split: sum.split option.split session_result.split)

lemma attempt_step_body:
  "sent_messages (trace (snd (attempt_step en cfg addr a t))) =
     sent_messages (trace t) @
       (case template_read (ticks en (tick t)) of
          Inl ex \<Rightarrow> []
        | Inr html \<Rightarrow> [build_message cfg addr html])"
  by (simp add: attempt_step_def send_attempt_def on_exception_def open_session_def Let_def
      split: sum.split option.split session_result.split)

lemma open_session_reads:
  "template_reads (trace (snd (open_session cfg r t))) = template_reads (trace t)"
  by (simp add: open_session_def split: session_result.split)

text \<open>A run whose pre-flight check goes well reads the template right after the check, and
  once more in every iteration of the attempt loop: the number of reads is one more than
  the number of iterations started.\<close>

lemma run_reads:
  assumes "preflight en = Connected"
  shows "template_reads (trace (final (send_newsletters en cfg s))) + tick s =
           Suc (template_reads (trace s)) + tick (final (send_newsletters en cfg s))"
proof (rule send_newsletters_after_read
    [where P = "\<lambda>t. template_reads (trace t) + tick s = Suc (template_reads (trace s)) + tick t"])
  show "template_reads (trace (snd (attempt_step en cfg addr a t))) + tick s =
      Suc (template_reads (trace s)) + tick (snd (attempt_step en cfg addr a t))"
    if "template_reads (trace t) + tick s = Suc (template_reads (trace s)) + tick t" for addr a t
    using that by (simp add: attempt_step_reads attempt_step_tick)
  show "preflight en = Connected"
    by (rule assms)
qed (simp_all add: open_session_reads)

lemma run_starts_with_read:
  assumes "preflight en = Connected"
  shows "\<exists>es. trace (final (send_newsletters en cfg s)) =
           trace s @ [Connect (smtp_host cfg) (smtp_port cfg),
                      Login (smtp_username cfg) (smtp_password cfg), ReadTemplate] @ es"
proof (rule send_newsletters_after_read
    [where P = "\<lambda>t. \<exists>es. trace t =
       trace s @ [Connect (smtp_host cfg) (smtp_port cfg),
                  Login (smtp_username cfg) (smtp_password cfg), ReadTemplate] @ es"])
  let ?start = "[Connect (smtp_host cfg) (smtp_port cfg),
    Login (smtp_username cfg) (smtp_password cfg), ReadTemplate]"
  show "\<exists>es. trace (snd (attempt_step en cfg addr a t)) = trace s @ ?start @ es"
    if "\<exists>es. trace t = trace s @ ?start @ es" for addr a t
    using that attempt_step_grows [of en cfg addr a t] by auto
  show "\<exists>es. trace (snd (open_session cfg r t)) = trace s @ ?start @ es"
    if "\<exists>es. trace t = trace s @ ?start @ es" for r t
    using that open_session_grows [of cfg r t] by auto
  show "preflight en = Connected"
    by (rule assms)
  show "\<exists>es. trace (emit [ReadTemplate] (snd (open_session cfg Connected s))) =
      trace s @ ?start @ es"
    by (simp add: open_session_def)
qed simp

lemma run_without_read:
  assumes "preflight en \<noteq> Connected"
  shows "template_reads (trace (final (send_newsletters en cfg s))) = template_reads (trace s)"
  using assms
  by (cases "preflight en") (simp_all add: send_newsletters_def open_session_def)

text \<open>The content returned by the read at the start of the run is not used.\<close>

lemma template0_unused:
  assumes "\<not> isl (template0 en)"
  shows "send_newsletters (en\<lparr>template0 := Inr other\<rparr>) cfg s = send_newsletters en cfg s"
proof -
  from assms obtain tpl where tpl: "template0 en = Inr tpl"
    by (cases "template0 en") simp_all
  have "ticks (en\<lparr>template0 := Inr other\<rparr>) = ticks en"
    by simp
  from send_loop_ticks [OF this] tpl show ?thesis
    by (simp add: send_newsletters_def Let_def
        cong: prod.case_cong option.case_cong sum.case_cong)
qed

text \<open>
  Claim C7, as the code has it. The template is read once at the start of the run, right
  after the pre-flight check, into a variable that is not used again: the run is the same
  whatever content that read returns. The file is read once more in every iteration of
  the attempt loop, so a run reads it one time more than it starts iterations; the body
  of a message is the content returned by the read of its own iteration, with no
  substitution, and an iteration whose read fails sends nothing. So when every read of a
  run returns the same content, every message of the run carries that content.
\<close>

theorem template_read_per_attempt:
  assumes "\<forall>k html. template_read (ticks en k) = Inr html \<longrightarrow> html = h"
  shows "list_all (\<lambda>m. msg_html m = h)
           (sent_messages (trace (final (send_newsletters en cfg (s\<lparr>trace := []\<rparr>)))))
         \<and> template_reads (trace (snd (attempt_step en cfg addr a t))) =
             Suc (template_reads (trace t))
         \<and> sent_messages (trace (snd (attempt_step en cfg addr a t))) =
             sent_messages (trace t) @
               (case template_read (ticks en (tick t)) of
                  Inl ex \<Rightarrow> []
                | Inr html \<Rightarrow> [build_message cfg addr html])
         \<and> (preflight en = Connected \<longrightarrow>
              (\<exists>es. trace (final (send_newsletters en cfg (s\<lparr>trace := []\<rparr>))) =
                 [Connect (smtp_host cfg) (smtp_port cfg),
                  Login (smtp_username cfg) (smtp_password cfg), ReadTemplate] @ es)
              \<and> template_reads (trace (final (send_newsletters en cfg (s\<lparr>trace := []\<rparr>))))
                  + tick s =
                Suc (tick (final (send_newsletters en cfg (s\<lparr>trace := []\<rparr>)))))
         \<and> (preflight en \<noteq> Connected \<longrightarrow>
              template_reads (trace (final (send_newsletters en cfg (s\<lparr>trace := []\<rparr>)))) = 0)
         \<and> (\<not> isl (template0 en) \<longrightarrow>
              send_newsletters (en\<lparr>template0 := Inr other\<rparr>) cfg s = send_newsletters en cfg s)"
proof -
  have bodies: "list_all (\<lambda>m. msg_html m = h)
      (sent_messages (trace (final (send_newsletters en cfg (s\<lparr>trace := []\<rparr>)))))"
  proof (rule send_newsletters_invariant
      [where P = "\<lambda>t. list_all (\<lambda>m. msg_html m = h) (sent_messages (trace t))"])
    show "list_all (\<lambda>m. msg_html m = h) (sent_messages (trace (snd (attempt_step en cfg addr a t))))"
      if "list_all (\<lambda>m. msg_html m = h) (sent_messages (trace t))" for addr a t
      using that assms
      by (auto simp: attempt_step_body build_message_def split: sum.splits)
  qed (auto simp: open_session_def split: session_result.splits)
  have start: "preflight en = Connected \<longrightarrow>
      (\<exists>es. trace (final (send_newsletters en cfg (s\<lparr>trace := []\<rparr>))) =
         [Connect (smtp_host cfg) (smtp_port cfg),
          Login (smtp_username cfg) (smtp_password cfg), ReadTemplate] @ es)
      \<and> template_reads (trace (final (send_newsletters en cfg (s\<lparr>trace := []\<rparr>)))) + tick s =
          Suc (tick (final (send_newsletters en cfg (s\<lparr>trace := []\<rparr>))))"
    using run_starts_with_read [of en cfg "s\<lparr>trace := []\<rparr>"] run_reads [of en cfg "s\<lparr>trace := []\<rparr>"]
    by simp
  have none: "preflight en \<noteq> Connected \<longrightarrow>
      template_reads (trace (final (send_newsletters en cfg (s\<lparr>trace := []\<rparr>)))) = 0"
    using run_without_read [of en cfg "s\<lparr>trace := []\<rparr>"] by simp
  have unused: "\<not> isl (template0 en) \<longrightarrow>
      send_newsletters (en\<lparr>template0 := Inr other\<rparr>) cfg s = send_newsletters en cfg s"
    using template0_unused [of en other cfg s] by blast
  from bodies attempt_step_reads attempt_step_body start none unused show ?thesis
    by blast
qed

theorem template_read_per_attempt_witness:
  "template_read (ticks refused_then_delivered 0) = Inr ''<p>Hello</p>''
   \<and> template_read (ticks refused_then_delivered 1) = Inr ''<p>Hello</p>''
   \<and> preflight refused_then_delivered = Connected
   \<and> list_all (\<lambda>m. msg_html m = ''<p>Hello</p>'')
        (sent_messages (trace (final
           (send_newsletters refused_then_delivered demo_config (init_state\<lparr>trace := []\<rparr>)))))
   \<and> template_reads
        (trace (snd (attempt_step refused_then_delivered demo_config ''bad@x.com'' 0 init_state))) = 1
   \<and> (\<exists>es. trace (final
           (send_newsletters refused_then_delivered demo_config (init_state\<lparr>trace := []\<rparr>))) =
        [Connect (smtp_host demo_config) (smtp_port demo_config),
         Login (smtp_username demo_config) (smtp_password demo_config), ReadTemplate] @ es)
   \<and> tick (final (send_newsletters refused_then_delivered demo_config init_state)) = 2
   \<and> template_reads (trace (final
        (send_newsletters refused_then_delivered demo_config (init_state\<lparr>trace := []\<rparr>)))) = 3
   \<and> send_newsletters (refused_then_delivered\<lparr>template0 := Inr ''<p>Other</p>''\<rparr>) demo_config
        init_state =
      send_newsletters refused_then_delivered demo_config init_state"
proof -
  have h: "\<forall>k html. template_read (ticks refused_then_delivered k) = Inr html
      \<longrightarrow> html = ''<p>Hello</p>''"
    by (simp add: input_defs)
  have r: "template_read (ticks refused_then_delivered 0) = Inr ''<p>Hello</p>''"
    "template_read (ticks refused_then_delivered 1) = Inr ''<p>Hello</p>''"
    "template_reads (trace init_state) = 0"
    by (simp_all add: input_defs)
  have p: "preflight refused_then_delivered = Connected"
    and t0: "\<not> isl (template0 refused_then_delivered)"
    by (simp_all add: input_defs)
  have i: "init_state\<lparr>trace := []\<rparr> = init_state" "tick init_state = 0"
    by (simp_all add: init_state_def)
  have n: "tick (final (send_newsletters refused_then_delivered demo_config init_state)) = 2"
    by (simp add: send_newsletters_def step_defs input_defs)
  note c = template_read_per_attempt [OF h, of demo_config init_state "''bad@x.com''" 0 init_state
      "''<p>Other</p>''", unfolded i]
  from c p n
  have reads: "template_reads (trace (final
      (send_newsletters refused_then_delivered demo_config init_state))) = 3"
    by simp
  from c r(3) have one: "template_reads
      (trace (snd (attempt_step refused_then_delivered demo_config ''bad@x.com'' 0 init_state))) = 1"
    by simp
  have evaluated: "template_reads (trace (final
      (send_newsletters refused_then_delivered demo_config init_state))) = 3"
    by (simp add: send_newsletters_def step_defs input_defs)
  from c p t0 r(1,2) n reads evaluated one show ?thesis
    unfolding i by blast
qed

text \<open>The claim as the specification states it fails: the file is read three times in a run
  with two recipients, and when the file is edited between two reads the two recipients
  get different bodies.\<close>

theorem template_read_again:
  "map msg_html (sent_messages (trace (final (send_newsletters edited_env demo_config init_state))))
     = [''<p>Hello</p>'', ''<p>Bye</p>'']
   \<and> template_reads (trace (final (send_newsletters edited_env demo_config init_state))) = 3"
  by (simp add: send_newsletters_def step_defs input_defs)

end
